theory Spec2Isabelle
  imports Main
begin

section \<open>Values, faults and the document model\<close>

text \<open>
  The development embeds \<^verbatim>\<open>packages/outline-react/src/shared/useRichTextSetup.js\<close>:
  the event bindings, the lifecycle helpers (\<^verbatim>\<open>initParagraph\<close>, \<^verbatim>\<open>initEditor\<close>,
  \<^verbatim>\<open>clearEditor\<close>) and the command listener registered at \<^verbatim>\<open>EditorPriority\<close>.
  The document tree, the selection object and the editor's dispatch loop live in other
  packages; what the listener needs of them is modelled below from the specification's
  interface section, or taken as a parameter (\<open>externals\<close>).
\<close>

text \<open>A keyboard event: its identity (the object \<^verbatim>\<open>preventDefault\<close> marks) and \<^verbatim>\<open>shiftKey\<close>.\<close>

record keyboard_event =
  eventId :: nat
  shiftKey :: bool

text \<open>The payloads a command can carry. JavaScript is untyped at run time, so the
  listener can receive any of them under any command name.\<close>

datatype js_value =
    JSUndefined
  | JSBool bool
  | JSString string
  | JSEvent keyboard_event

text \<open>Exceptions. \<open>NoParent\<close> is the invariant of \<^verbatim>\<open>getParentOrThrow\<close>,
  \<open>NodeNotFound\<close> the one of \<^verbatim>\<open>Point.getNode\<close>, \<open>TypeError\<close> a property read or
  a call on a value that does not have it, \<open>External\<close> whatever a collaborator throws.\<close>

datatype error = TypeError | NodeNotFound | NoParent | External string

text \<open>JavaScript truthiness, as an \<^verbatim>\<open>if (flag)\<close> reads a value.\<close>

fun truthy :: "js_value \<Rightarrow> bool" where
  "truthy JSUndefined = False"
| "truthy (JSBool b) = b"
| "truthy (JSString s) = (s \<noteq> [])"
| "truthy (JSEvent ev) = True"

text \<open>\<^verbatim>\<open>textContent[i]\<close>: the code unit at index \<open>i\<close>, \<^verbatim>\<open>undefined\<close> (here \<open>None\<close>)
  when \<open>i\<close> is negative or not below the length. Strings are lists of code units.\<close>

definition jsCharAt :: "string \<Rightarrow> int \<Rightarrow> char option" where
  "jsCharAt s i = (if 0 \<le> i \<and> i < int (length s) then Some (s ! nat i) else None)"

text \<open>The tab character \<^verbatim>\<open>'\t'\<close>.\<close>

definition tab :: char where
  "tab = CHR 0x09"

text \<open>The node classes: the root, the six classes this file registers, text and line
  break, and \<open>LinkNode\<close>, the inline element of the \<^verbatim>\<open>outline\<close> package: an element
  that wraps text inside a block and is not a block itself.\<close>

datatype node_type =
    RootNode | ParagraphNode | HeadingNode | ListNode | ListItemNode | QuoteNode
  | CodeNode | TextNode | LineBreakNode | LinkNode

datatype node_key = RootKey | NodeKey nat

text \<open>
  Modelled from the spec: the block node interface of section 6
  (\<^verbatim>\<open>getIndent/setIndent\<close>, \<^verbatim>\<open>canInsertTab\<close>, \<^verbatim>\<open>setFormat\<close>, \<^verbatim>\<open>getParentOrThrow\<close>,
  \<^verbatim>\<open>getTextContent\<close>); the node classes themselves are in the \<^verbatim>\<open>outline\<close> package.
  \<open>textContent\<close> is what \<^verbatim>\<open>getTextContent()\<close> reports for the node.
\<close>

record node =
  ntype :: node_type
  parent :: "node_key option"
  children :: "node_key list"
  textContent :: string
  indent :: int
  format :: js_value

datatype point_type = TextPoint | ElementPoint

record point =
  key :: node_key
  offset :: int
  ptype :: point_type

record selection =
  anchor :: point
  focus :: point

text \<open>Modelled from the spec: the editor state of the document session (sections 3
  and 6), which this file only reads through \<^verbatim>\<open>$getRoot\<close> and \<^verbatim>\<open>$getSelection\<close>: the
  root (always present), the other nodes by key, the selection (\<open>None\<close> is \<^verbatim>\<open>null\<close>,
  at most one per editor) and the counter that names new nodes.\<close>

record editor_state =
  root :: node
  nodeMap :: "nat \<Rightarrow> node option"
  selection :: "selection option"
  keyCounter :: nat

datatype update_event = Committed editor_state | OnUpdate nat

text \<open>The editor together with what the code reads and writes of the host page:
  the debug log of \<^verbatim>\<open>$log\<close>, the editor's root element and \<^verbatim>\<open>document.activeElement\<close>
  (DOM elements by identity), the events whose default action was prevented, the node
  classes registered at mount, and the record of commits and \<^verbatim>\<open>onUpdate\<close> calls.\<close>

record editor =
  editorState :: editor_state
  logs :: "string list"
  rootElement :: "nat option"
  activeElement :: "nat option"
  defaultPrevented :: "nat set"
  registeredNodes :: "node_type list"
  updates :: "update_event list"

text \<open>Modelled from the spec: looking a node up by its key and storing a changed node,
  as the document session does for the node methods below.\<close>

fun getNodeByKey :: "editor_state \<Rightarrow> node_key \<Rightarrow> node option" where
  "getNodeByKey m RootKey = Some (root m)"
| "getNodeByKey m (NodeKey n) = nodeMap m n"

fun setNode :: "node_key \<Rightarrow> node \<Rightarrow> editor_state \<Rightarrow> editor_state" where
  "setNode RootKey nd m = m\<lparr>root := nd\<rparr>"
| "setNode (NodeKey n) nd m = m\<lparr>nodeMap := (nodeMap m)(n \<mapsto> nd)\<rparr>"

text \<open>Modelled from the spec: \<^verbatim>\<open>$isElementNode\<close> of the \<^verbatim>\<open>outline\<close> package. The blocks
  of section 3 (paragraph, heading, list, list item, quote, code block), the root and
  the inline link are elements; text and line breaks are not.\<close>

definition isElementNode :: "node \<Rightarrow> bool" where
  "isElementNode nd = (ntype nd \<noteq> TextNode \<and> ntype nd \<noteq> LineBreakNode)"

text \<open>Modelled from the spec: \<^verbatim>\<open>point.getNode()\<close>, the node the anchor refers to
  (section 3); a key that names no node is an invariant failure.\<close>

definition getNode :: "editor_state \<Rightarrow> point \<Rightarrow> error + node" where
  "getNode m p = (case getNodeByKey m (key p) of None \<Rightarrow> Inl NodeNotFound | Some nd \<Rightarrow> Inr nd)"

text \<open>Modelled from the spec: \<^verbatim>\<open>node.getParentOrThrow()\<close> (section 6) gives the parent,
  here with its key, and fails fatally if the node has no parent.\<close>

definition getParentOrThrow :: "editor_state \<Rightarrow> node \<Rightarrow> error + node_key \<times> node" where
  "getParentOrThrow m nd =
     (case parent nd of
        None \<Rightarrow> Inl NoParent
      | Some pk \<Rightarrow>
          (case getNodeByKey m pk of None \<Rightarrow> Inl NoParent | Some p \<Rightarrow> Inr (pk, p)))"

text \<open>Modelled from the spec: \<^verbatim>\<open>canInsertTab()\<close> (sections 3 and 6) is the capability
  flag of a block, true only for code-like blocks; calling it on a node that is not an
  element, which has no such method, is a \<^verbatim>\<open>TypeError\<close>.\<close>

definition canInsertTab :: "node \<Rightarrow> error + bool" where
  "canInsertTab nd = (if isElementNode nd then Inr (ntype nd = CodeNode) else Inl TypeError)"

text \<open>Modelled from the spec: \<^verbatim>\<open>setIndent(n)\<close> and \<^verbatim>\<open>setFormat(format)\<close> (section 6)
  write the attribute of the node under the key; \<^verbatim>\<open>getIndent()\<close> is the field \<open>indent\<close>.\<close>

definition setIndent :: "node_key \<Rightarrow> int \<Rightarrow> editor_state \<Rightarrow> editor_state" where
  "setIndent k n m =
     (case getNodeByKey m k of None \<Rightarrow> m | Some nd \<Rightarrow> setNode k (nd\<lparr>indent := n\<rparr>) m)"

definition setFormat :: "node_key \<Rightarrow> js_value \<Rightarrow> editor_state \<Rightarrow> editor_state" where
  "setFormat k f m =
     (case getNodeByKey m k of None \<Rightarrow> m | Some nd \<Rightarrow> setNode k (nd\<lparr>format := f\<rparr>) m)"

text \<open>The expression both indent cases use for \<^verbatim>\<open>parentBlock\<close>:
  \<^verbatim>\<open>anchor.type === 'element' ? anchor.getNode() : anchor.getNode().getParentOrThrow()\<close>.\<close>

definition parentBlock :: "editor_state \<Rightarrow> point \<Rightarrow> error + node_key \<times> node" where
  "parentBlock m a =
     (if ptype a = ElementPoint
      then (case getNode m a of Inl x \<Rightarrow> Inl x | Inr nd \<Rightarrow> Inr (key a, nd))
      else (case getNode m a of Inl x \<Rightarrow> Inl x | Inr nd \<Rightarrow> getParentOrThrow m nd))"

text \<open>The element of \<^verbatim>\<open>formatElement\<close>:
  \<^verbatim>\<open>$isElementNode(node) ? node : node.getParentOrThrow()\<close>.\<close>

definition formatTarget :: "editor_state \<Rightarrow> point \<Rightarrow> error + node_key \<times> node" where
  "formatTarget m a =
     (case getNode m a of
        Inl x \<Rightarrow> Inl x
      | Inr nd \<Rightarrow> if isElementNode nd then Inr (key a, nd) else getParentOrThrow m nd)"

section \<open>The collaborators of the command listener\<close>

text \<open>
  Modelled from the spec: the selection object of section 6 and the helpers of
  \<^verbatim>\<open>outline/events\<close> and \<^verbatim>\<open>outline/selection\<close> are not part of this file, so they are
  parameters acting on the editor state (the selection is part of it). A boolean flag
  (\<^verbatim>\<open>isBackward\<close>, \<^verbatim>\<open>selectStart\<close>, \<^verbatim>\<open>isHoldingShift\<close>) reaches them through JavaScript
  truthiness ("if selectStart, place the resulting selection before the break, else
  after"), so an absent payload acts as false; a text or format payload is handed over
  as it is. \<open>hostListeners\<close> are the command handlers the host registered at a higher
  priority, in the order they run.
\<close>

type_synonym host_listener = "string \<Rightarrow> js_value \<Rightarrow> editor_state \<Rightarrow> error + bool \<times> editor_state"

record externals =
  deleteCharacter :: "bool \<Rightarrow> editor_state \<Rightarrow> error + editor_state"
  deleteWord :: "bool \<Rightarrow> editor_state \<Rightarrow> error + editor_state"
  deleteLine :: "bool \<Rightarrow> editor_state \<Rightarrow> error + editor_state"
  insertText :: "js_value \<Rightarrow> editor_state \<Rightarrow> error + editor_state"
  removeText :: "editor_state \<Rightarrow> error + editor_state"
  formatText :: "js_value \<Rightarrow> editor_state \<Rightarrow> error + editor_state"
  insertLineBreak :: "bool \<Rightarrow> editor_state \<Rightarrow> error + editor_state"
  insertParagraph :: "editor_state \<Rightarrow> error + editor_state"
  shouldOverrideDefaultCharacterSelection :: "editor_state \<Rightarrow> bool \<Rightarrow> bool"
  moveCharacter :: "bool \<Rightarrow> bool \<Rightarrow> editor_state \<Rightarrow> error + editor_state"
  hostListeners :: "host_listener list"

text \<open>A selection method ran inside the listener, which then returns \<^verbatim>\<open>true\<close>.\<close>

definition handled :: "editor \<Rightarrow> error + editor_state \<Rightarrow> error + bool \<times> editor" where
  "handled e r = (case r of Inl x \<Rightarrow> Inl x | Inr m \<Rightarrow> Inr (True, e\<lparr>editorState := m\<rparr>))"

text \<open>\<^verbatim>\<open>event.shiftKey\<close> on the payload: reading a property of \<^verbatim>\<open>undefined\<close> throws,
  a boolean or a string has no such property (\<^verbatim>\<open>undefined\<close>, which is falsy).\<close>

fun eventShiftKey :: "js_value \<Rightarrow> error + bool" where
  "eventShiftKey JSUndefined = Inl TypeError"
| "eventShiftKey (JSEvent ev) = Inr (shiftKey ev)"
| "eventShiftKey v = Inr False"

text \<open>\<^verbatim>\<open>event.preventDefault()\<close> on the payload: only an event has the method.\<close>

fun preventDefault :: "js_value \<Rightarrow> editor \<Rightarrow> error + editor" where
  "preventDefault (JSEvent ev) e =
     Inr (e\<lparr>defaultPrevented := insert (eventId ev) (defaultPrevented e)\<rparr>)"
| "preventDefault v e = Inl TypeError"

text \<open>Modelled from the spec: the host's handlers run in order, and the first one that
  returns \<^verbatim>\<open>true\<close> ends the dispatch (section 4.2, dispatch priority).\<close>

fun runListeners ::
  "host_listener list \<Rightarrow> string \<Rightarrow> js_value \<Rightarrow> editor_state \<Rightarrow> error + bool \<times> editor_state" where
  "runListeners [] type payload m = Inr (False, m)"
| "runListeners (h # hs) type payload m =
     (case h type payload m of
        Inl x \<Rightarrow> Inl x
      | Inr (True, m') \<Rightarrow> Inr (True, m')
      | Inr (False, m') \<Rightarrow> runListeners hs type payload m')"

text \<open>How deep a command delegates: \<^verbatim>\<open>keyTab\<close> re-dispatches an indent command, which
  may re-dispatch a text command; the other key commands re-dispatch a text command.\<close>

definition depth :: "string \<Rightarrow> nat" where
  "depth type =
     (if type = ''keyTab'' then 2
      else if type = ''indentContent'' \<or> type = ''outdentContent'' \<or> type = ''keyBackspace''
              \<or> type = ''keyDelete'' \<or> type = ''keyEnter'' then 1
      else 0)"

section \<open>The command listener\<close>

text \<open>
  \<open>commandListener\<close> is the listener of \<^verbatim>\<open>editor.addListener('command', ...)\<close>, case by
  case in the order of the source. It returns the exception, or the boolean the listener
  returns together with the editor it leaves. The listener calls \<^verbatim>\<open>editor.execCommand\<close>,
  which calls the listener again, so the two are defined together.
\<close>

text \<open>
  Modelled from the spec: \<open>execCommand\<close> is the re-entrant dispatch entry point of the
  document session (section 6), whose code is in the \<^verbatim>\<open>outline\<close> package. It runs the
  handlers of higher priority first, any of which may end the dispatch by returning
  handled, and this listener, registered at the lowest priority, last (section 4.2,
  dispatch priority).
\<close>

function commandListener :: "externals \<Rightarrow> string \<Rightarrow> js_value \<Rightarrow> editor \<Rightarrow> error + bool \<times> editor"
  and execCommand :: "externals \<Rightarrow> string \<Rightarrow> js_value \<Rightarrow> editor \<Rightarrow> error + bool \<times> editor" where
  "commandListener ext type payload e =
     (case selection (editorState e) of
        None \<Rightarrow> Inr (False, e)
      | Some sel \<Rightarrow>
          if type = ''deleteCharacter'' then
            handled e (deleteCharacter ext (truthy payload) (editorState e))
          else if type = ''deleteWord'' then
            handled e (deleteWord ext (truthy payload) (editorState e))
          else if type = ''deleteLine'' then
            handled e (deleteLine ext (truthy payload) (editorState e))
          else if type = ''insertText'' then
            handled e (insertText ext payload (editorState e))
          else if type = ''removeText'' then
            handled e (removeText ext (editorState e))
          else if type = ''formatText'' then
            handled e (formatText ext payload (editorState e))
          else if type = ''formatElement'' then
            (case formatTarget (editorState e) (anchor sel) of
               Inl x \<Rightarrow> Inl x
             | Inr (k, element) \<Rightarrow>
                 Inr (True, e\<lparr>editorState := setFormat k payload (editorState e)\<rparr>))
          else if type = ''insertLineBreak'' then
            handled e (insertLineBreak ext (truthy payload) (editorState e))
          else if type = ''insertParagraph'' then
            handled e (insertParagraph ext (editorState e))
          else if type = ''indentContent'' then
            (case parentBlock (editorState e) (anchor sel) of
               Inl x \<Rightarrow> Inl x
             | Inr (k, pb) \<Rightarrow>
                 (case canInsertTab pb of
                    Inl x \<Rightarrow> Inl x
                  | Inr True \<Rightarrow>
                      (case execCommand ext ''insertText'' (JSString [tab]) e of
                         Inl x \<Rightarrow> Inl x
                       | Inr (r, e') \<Rightarrow> Inr (True, e'))
                  | Inr False \<Rightarrow>
                      if indent pb \<noteq> 10
                      then Inr (True, e\<lparr>editorState := setIndent k (indent pb + 1) (editorState e)\<rparr>)
                      else Inr (True, e)))
          else if type = ''outdentContent'' then
            (case getNode (editorState e) (anchor sel) of
               Inl x \<Rightarrow> Inl x
             | Inr anchorNode \<Rightarrow>
                 (case parentBlock (editorState e) (anchor sel) of
                    Inl x \<Rightarrow> Inl x
                  | Inr (k, pb) \<Rightarrow>
                      (case canInsertTab pb of
                         Inl x \<Rightarrow> Inl x
                       | Inr True \<Rightarrow>
                           if jsCharAt (textContent anchorNode) (offset (anchor sel) - 1) = Some tab
                           then (case execCommand ext ''deleteCharacter'' (JSBool True) e of
                                   Inl x \<Rightarrow> Inl x
                                 | Inr (r, e') \<Rightarrow> Inr (True, e'))
                           else Inr (True, e)
                       | Inr False \<Rightarrow>
                           if indent pb \<noteq> 0
                           then Inr (True, e\<lparr>editorState := setIndent k (indent pb - 1) (editorState e)\<rparr>)
                           else Inr (True, e))))
          else if type = ''keyArrowLeft'' then
            (case eventShiftKey payload of
               Inl x \<Rightarrow> Inl x
             | Inr isHoldingShift \<Rightarrow>
                 if shouldOverrideDefaultCharacterSelection ext (editorState e) True
                 then (case preventDefault payload e of
                         Inl x \<Rightarrow> Inl x
                       | Inr e1 \<Rightarrow> handled e1 (moveCharacter ext isHoldingShift True (editorState e1)))
                 else Inr (False, e))
          else if type = ''keyArrowRight'' then
            (case eventShiftKey payload of
               Inl x \<Rightarrow> Inl x
             | Inr isHoldingShift \<Rightarrow>
                 if shouldOverrideDefaultCharacterSelection ext (editorState e) False
                 then (case preventDefault payload e of
                         Inl x \<Rightarrow> Inl x
                       | Inr e1 \<Rightarrow> handled e1 (moveCharacter ext isHoldingShift False (editorState e1)))
                 else Inr (False, e))
          else if type = ''keyBackspace'' then
            (case preventDefault payload e of
               Inl x \<Rightarrow> Inl x
             | Inr e1 \<Rightarrow> execCommand ext ''deleteCharacter'' (JSBool True) e1)
          else if type = ''keyDelete'' then
            (case preventDefault payload e of
               Inl x \<Rightarrow> Inl x
             | Inr e1 \<Rightarrow> execCommand ext ''deleteCharacter'' (JSBool False) e1)
          else if type = ''keyEnter'' then
            (case preventDefault payload e of
               Inl x \<Rightarrow> Inl x
             | Inr e1 \<Rightarrow>
                 (case eventShiftKey payload of
                    Inl x \<Rightarrow> Inl x
                  | Inr shift \<Rightarrow>
                      if shift then execCommand ext ''insertLineBreak'' JSUndefined e1
                      else execCommand ext ''insertParagraph'' JSUndefined e1))
          else if type = ''keyTab'' then
            (case preventDefault payload e of
               Inl x \<Rightarrow> Inl x
             | Inr e1 \<Rightarrow>
                 (case eventShiftKey payload of
                    Inl x \<Rightarrow> Inl x
                  | Inr shift \<Rightarrow>
                      if shift then execCommand ext ''outdentContent'' JSUndefined e1
                      else execCommand ext ''indentContent'' JSUndefined e1))
          else Inr (False, e))"
| "execCommand ext type payload e =
     (case runListeners (hostListeners ext) type payload (editorState e) of
        Inl x \<Rightarrow> Inl x
      | Inr (True, m) \<Rightarrow> Inr (True, e\<lparr>editorState := m\<rparr>)
      | Inr (False, m) \<Rightarrow> commandListener ext type payload (e\<lparr>editorState := m\<rparr>))"
  by pat_completeness auto
termination
  by (relation "measure (\<lambda>x. case x of
          Inl (ext, type, payload, e) \<Rightarrow> 2 * depth type
        | Inr (ext, type, payload, e) \<Rightarrow> 2 * depth type + 1)")
     (auto simp: depth_def)

declare commandListener.simps [simp del]
declare execCommand.simps [simp del]

section \<open>The blocks of the specification\<close>

text \<open>
  The specification's block node is "a structural unit (paragraph, heading, list item,
  quote, code block)" (section 3 and glossary). This predicate follows those words; the
  code never tests it.
\<close>

definition isBlockNode :: "node \<Rightarrow> bool" where
  "isBlockNode nd =
     (ntype nd = ParagraphNode \<or> ntype nd = HeadingNode \<or> ntype nd = ListItemNode
      \<or> ntype nd = QuoteNode \<or> ntype nd = CodeNode)"

text \<open>
  The specification speaks of the anchor's "nearest block ancestor". This definition
  follows those words, to be compared with \<open>parentBlock\<close>: it climbs the parent links
  from a node, past every ancestor that is not a block, and stops at the first ancestor
  that is one, giving up when a link is missing. \<open>fuel\<close> bounds the number of links
  followed.
\<close>

fun nearestBlockAncestor :: "nat \<Rightarrow> editor_state \<Rightarrow> node \<Rightarrow> (node_key \<times> node) option" where
  "nearestBlockAncestor 0 m nd = None"
| "nearestBlockAncestor (Suc fuel) m nd =
     (case parent nd of
        None \<Rightarrow> None
      | Some pk \<Rightarrow>
          (case getNodeByKey m pk of
             None \<Rightarrow> None
           | Some p \<Rightarrow> if isBlockNode p then Some (pk, p) else nearestBlockAncestor fuel m p))"

text \<open>The indent level of the node under a key, when there is one.\<close>

definition indentOf :: "editor_state \<Rightarrow> node_key \<Rightarrow> int option" where
  "indentOf m k = map_option indent (getNodeByKey m k)"

section \<open>Event bindings\<close>

datatype handler =
    OnSelectionChange | OnKeyDown | OnCompositionStart | OnCompositionEnd
  | OnCutForRichText | OnCopyForRichText | OnDragStartPolyfill | OnPasteForRichText
  | OnInput | OnClick | OnBeforeInput | OnDropPolyfill

text \<open>The module-level \<^verbatim>\<open>events\<close> array after the conditional \<^verbatim>\<open>push\<close>. The flag
  \<^verbatim>\<open>CAN_USE_BEFORE_INPUT\<close> comes from \<^verbatim>\<open>shared/environment\<close> and is a parameter here.\<close>

definition events :: "bool \<Rightarrow> (string \<times> handler) list" where
  "events CAN_USE_BEFORE_INPUT =
     [(''selectionchange'', OnSelectionChange),
      (''keydown'', OnKeyDown),
      (''compositionstart'', OnCompositionStart),
      (''compositionend'', OnCompositionEnd),
      (''cut'', OnCutForRichText),
      (''copy'', OnCopyForRichText),
      (''dragstart'', OnDragStartPolyfill),
      (''paste'', OnPasteForRichText),
      (''input'', OnInput),
      (''click'', OnClick)]
     @ (if CAN_USE_BEFORE_INPUT
        then [(''beforeinput'', OnBeforeInput)]
        else [(''drop'', OnDropPolyfill)])"

section \<open>Lifecycle: initParagraph, initEditor, clearEditor\<close>

text \<open>
  Modelled from the spec: the tree primitives the lifecycle helpers call
  (\<^verbatim>\<open>$createParagraphNode\<close>, \<^verbatim>\<open>root.append\<close>, \<^verbatim>\<open>root.getFirstChild\<close>, \<^verbatim>\<open>root.clear\<close>,
  \<^verbatim>\<open>paragraph.select\<close>) and \<^verbatim>\<open>editor.update\<close> belong to the document session
  (sections 3, 4.3 and 6): a new paragraph is empty and gets the next key; \<^verbatim>\<open>append\<close>
  adds it as the root's last child; \<^verbatim>\<open>clear\<close> empties the root of all children;
  \<^verbatim>\<open>select\<close> places the selection inside the node; \<^verbatim>\<open>update\<close> runs the mutator,
  commits, and fires \<^verbatim>\<open>onUpdate\<close> after the commit.
\<close>

definition emptyParagraph :: node where
  "emptyParagraph =
     \<lparr>ntype = ParagraphNode, parent = None, children = [], textContent = [],
      indent = 0, format = JSUndefined\<rparr>"

definition createParagraphNode :: "editor_state \<Rightarrow> node_key \<times> editor_state" where
  "createParagraphNode m =
     (NodeKey (keyCounter m),
      m\<lparr>nodeMap := (nodeMap m)(keyCounter m \<mapsto> emptyParagraph),
        keyCounter := Suc (keyCounter m)\<rparr>)"

definition rootAppend :: "node_key \<Rightarrow> editor_state \<Rightarrow> editor_state" where
  "rootAppend k m =
     (let m1 = (case getNodeByKey m k of
                  None \<Rightarrow> m
                | Some nd \<Rightarrow> setNode k (nd\<lparr>parent := Some RootKey\<rparr>) m)
      in m1\<lparr>root := (root m1)\<lparr>children := children (root m1) @ [k]\<rparr>\<rparr>)"

definition getFirstChild :: "node \<Rightarrow> node_key option" where
  "getFirstChild nd = (case children nd of [] \<Rightarrow> None | c # cs \<Rightarrow> Some c)"

definition detach :: "node_key \<Rightarrow> editor_state \<Rightarrow> editor_state" where
  "detach k m =
     (case getNodeByKey m k of None \<Rightarrow> m | Some nd \<Rightarrow> setNode k (nd\<lparr>parent := None\<rparr>) m)"

definition rootClear :: "editor_state \<Rightarrow> editor_state" where
  "rootClear m =
     (let m1 = fold detach (children (root m)) m
      in m1\<lparr>root := (root m1)\<lparr>children := [], textContent := []\<rparr>\<rparr>)"

definition select :: "node_key \<Rightarrow> editor_state \<Rightarrow> editor_state" where
  "select k m =
     (case getNodeByKey m k of
        None \<Rightarrow> m
      | Some nd \<Rightarrow>
          (let p = \<lparr>key = k, offset = int (length (children nd)), ptype = ElementPoint\<rparr>
           in m\<lparr>selection := Some \<lparr>anchor = p, focus = p\<rparr>\<rparr>))"

definition logUpdate :: "string \<Rightarrow> editor \<Rightarrow> editor" where
  "logUpdate name e = e\<lparr>logs := logs e @ [name]\<rparr>"

definition update :: "(editor \<Rightarrow> editor) \<Rightarrow> nat option \<Rightarrow> editor \<Rightarrow> editor" where
  "update mutator onUpdate e =
     (let e1 = mutator e;
          e2 = e1\<lparr>updates := updates e1 @ [Committed (editorState e1)]\<rparr>
      in case onUpdate of
           None \<Rightarrow> e2
         | Some callbackFn \<Rightarrow> e2\<lparr>updates := updates e2 @ [OnUpdate callbackFn]\<rparr>)"

definition shouldSelectParagraph :: "editor \<Rightarrow> bool" where
  "shouldSelectParagraph e =
     (selection (editorState e) \<noteq> None
      \<or> (activeElement e \<noteq> None \<and> activeElement e = rootElement e))"

definition initParagraph :: "editor \<Rightarrow> editor" where
  "initParagraph e =
     (let (paragraph, m1) = createParagraphNode (editorState e);
          e1 = e\<lparr>editorState := rootAppend paragraph m1\<rparr>
      in if shouldSelectParagraph e1
         then e1\<lparr>editorState := select paragraph (editorState e1)\<rparr>
         else e1)"

definition initEditor :: "editor \<Rightarrow> editor" where
  "initEditor e =
     update (\<lambda>e0.
        let e1 = logUpdate ''initEditor'' e0;
            firstChild = getFirstChild (root (editorState e1))
        in if firstChild = None then initParagraph e1 else e1) None e"

definition clearEditor :: "editor \<Rightarrow> nat option \<Rightarrow> editor" where
  "clearEditor e callbackFn =
     update (\<lambda>e0.
        let e1 = logUpdate ''clearEditor'' e0;
            e2 = e1\<lparr>editorState := rootClear (editorState e1)\<rparr>
        in initParagraph e2) callbackFn e"

text \<open>The layout effect of \<^verbatim>\<open>useRichTextSetup\<close>, run when the editor mounts: it registers
  the node classes (the listeners are \<open>commandListener\<close> and the parameters above) and
  initialises the editor when \<^verbatim>\<open>init\<close> is set.\<close>

definition useRichTextSetup :: "editor \<Rightarrow> bool \<Rightarrow> editor" where
  "useRichTextSetup e init =
     (let e1 = e\<lparr>registeredNodes :=
                   [HeadingNode, ListNode, QuoteNode, CodeNode, ParagraphNode, ListItemNode]\<rparr>
      in if init then initEditor e1 else e1)"

section \<open>A small selection object for running the listener\<close>

text \<open>
  A stand-in for the external selection object on a collapsed text selection, used to
  run the listener on concrete documents: it edits the text of the anchor's node at
  the anchor's offset. The theorems below hold for every \<open>externals\<close>.
\<close>

definition moveAnchor :: "int \<Rightarrow> selection \<Rightarrow> selection" where
  "moveAnchor d sel =
     (let p = (anchor sel)\<lparr>offset := offset (anchor sel) + d\<rparr> in \<lparr>anchor = p, focus = p\<rparr>)"

definition editAnchorText ::
  "(nat \<Rightarrow> string \<Rightarrow> string) \<Rightarrow> int \<Rightarrow> editor_state \<Rightarrow> error + editor_state" where
  "editAnchorText f d m =
     (case selection m of
        None \<Rightarrow> Inl (External ''no selection'')
      | Some sel \<Rightarrow>
          (case getNodeByKey m (key (anchor sel)) of
             None \<Rightarrow> Inl NodeNotFound
           | Some nd \<Rightarrow>
               Inr ((setNode (key (anchor sel))
                       (nd\<lparr>textContent := f (nat (offset (anchor sel))) (textContent nd)\<rparr>) m)
                     \<lparr>selection := Some (moveAnchor d sel)\<rparr>)))"

definition plainSelection :: externals where
  "plainSelection =
     \<lparr>deleteCharacter = (\<lambda>isBackward.
          if isBackward
          then editAnchorText (\<lambda>i s. take (i - 1) s @ drop i s) (- 1)
          else editAnchorText (\<lambda>i s. take i s @ drop (Suc i) s) 0),
      deleteWord = (\<lambda>isBackward m. Inr m),
      deleteLine = (\<lambda>isBackward m. Inr m),
      insertText = (\<lambda>text.
          case text of
            JSString t \<Rightarrow> editAnchorText (\<lambda>i s. take i s @ t @ drop i s) (int (length t))
          | _ \<Rightarrow> (\<lambda>m. Inl TypeError)),
      removeText = (\<lambda>m. Inr m),
      formatText = (\<lambda>f m. Inr m),
      insertLineBreak = (\<lambda>selectStart.
          editAnchorText (\<lambda>i s. take i s @ [CHR 0x0A] @ drop i s) (if selectStart then 0 else 1)),
      insertParagraph = (\<lambda>m. Inr (let (k, m1) = createParagraphNode m in select k (rootAppend k m1))),
      shouldOverrideDefaultCharacterSelection = (\<lambda>m isBackward. False),
      moveCharacter = (\<lambda>isHoldingShift isBackward m. Inr m),
      hostListeners = []\<rparr>"

text \<open>A host handler that drops the selection when text is about to be inserted and
  leaves the command to the handlers after it.\<close>

definition blurOnInsert :: host_listener where
  "blurOnInsert type payload m =
     (if type = ''insertText'' then Inr (False, m\<lparr>selection := None\<rparr>) else Inr (False, m))"

text \<open>Sample documents: a root with one block (key 1) holding one text node (key 2),
  the selection collapsed in the text.\<close>

definition sampleState :: "node_type \<Rightarrow> int \<Rightarrow> string \<Rightarrow> int \<Rightarrow> editor_state" where
  "sampleState blockType level txt off =
     \<lparr>root = \<lparr>ntype = RootNode, parent = None, children = [NodeKey 1], textContent = txt,
               indent = 0, format = JSUndefined\<rparr>,
      nodeMap = [1 \<mapsto> \<lparr>ntype = blockType, parent = Some RootKey, children = [NodeKey 2],
                        textContent = txt, indent = level, format = JSUndefined\<rparr>,
                 2 \<mapsto> \<lparr>ntype = TextNode, parent = Some (NodeKey 1), children = [],
                        textContent = txt, indent = 0, format = JSUndefined\<rparr>],
      selection = Some \<lparr>anchor = \<lparr>key = NodeKey 2, offset = off, ptype = TextPoint\<rparr>,
                        focus = \<lparr>key = NodeKey 2, offset = off, ptype = TextPoint\<rparr>\<rparr>,
      keyCounter = 3\<rparr>"

definition editorOf :: "editor_state \<Rightarrow> editor" where
  "editorOf m =
     \<lparr>editorState = m, logs = [], rootElement = Some 0, activeElement = None,
      defaultPrevented = {}, registeredNodes = [], updates = []\<rparr>"

text \<open>A text node that lost its parent link: the selection sits in node 2, which
  names no parent.\<close>

definition orphanState :: editor_state where
  "orphanState =
     \<lparr>root = \<lparr>ntype = RootNode, parent = None, children = [], textContent = [],
               indent = 0, format = JSUndefined\<rparr>,
      nodeMap = [2 \<mapsto> \<lparr>ntype = TextNode, parent = None, children = [],
                        textContent = ''ab'', indent = 0, format = JSUndefined\<rparr>],
      selection = Some \<lparr>anchor = \<lparr>key = NodeKey 2, offset = 1, ptype = TextPoint\<rparr>,
                        focus = \<lparr>key = NodeKey 2, offset = 1, ptype = TextPoint\<rparr>\<rparr>,
      keyCounter = 3\<rparr>"


definition emptyState :: editor_state where
  "emptyState =
     \<lparr>root = \<lparr>ntype = RootNode, parent = None, children = [], textContent = [],
               indent = 0, format = JSUndefined\<rparr>,
      nodeMap = Map.empty, selection = None, keyCounter = 1\<rparr>"

text \<open>The text node and the caret of the sample documents, and a selection on the
  block itself.\<close>

definition sampleText :: "string \<Rightarrow> node" where
  "sampleText s =
     \<lparr>ntype = TextNode, parent = Some (NodeKey 1), children = [],
      textContent = s, indent = 0, format = JSUndefined\<rparr>"

definition sampleBlock :: "node_type \<Rightarrow> int \<Rightarrow> string \<Rightarrow> node" where
  "sampleBlock blockType level s =
     \<lparr>ntype = blockType, parent = Some RootKey, children = [NodeKey 2],
      textContent = s, indent = level, format = JSUndefined\<rparr>"

definition sampleCaret :: "int \<Rightarrow> selection" where
  "sampleCaret off =
     \<lparr>anchor = \<lparr>key = NodeKey 2, offset = off, ptype = TextPoint\<rparr>,
      focus = \<lparr>key = NodeKey 2, offset = off, ptype = TextPoint\<rparr>\<rparr>"

definition blockSelection :: selection where
  "blockSelection =
     \<lparr>anchor = \<lparr>key = NodeKey 1, offset = 0, ptype = ElementPoint\<rparr>,
      focus = \<lparr>key = NodeKey 1, offset = 0, ptype = ElementPoint\<rparr>\<rparr>"

text \<open>The sample selection object behind a host that runs \<open>blurOnInsert\<close> first.\<close>

definition blurringHost :: externals where
  "blurringHost = plainSelection\<lparr>hostListeners := [blurOnInsert]\<rparr>"





text \<open>A paragraph (key 1) that holds a link (key 3) that holds the text (key 2): the
  text's parent is the inline link, its nearest block ancestor the paragraph. The
  selection is collapsed in the text; \<open>linkSelection\<close> is a selection on the link itself.\<close>

definition linkParagraph :: node where
  "linkParagraph =
     \<lparr>ntype = ParagraphNode, parent = Some RootKey, children = [NodeKey 3],
      textContent = ''ab'', indent = 0, format = JSUndefined\<rparr>"

definition linkNode :: node where
  "linkNode =
     \<lparr>ntype = LinkNode, parent = Some (NodeKey 1), children = [NodeKey 2],
      textContent = ''ab'', indent = 0, format = JSUndefined\<rparr>"

definition linkText :: node where
  "linkText =
     \<lparr>ntype = TextNode, parent = Some (NodeKey 3), children = [],
      textContent = ''ab'', indent = 0, format = JSUndefined\<rparr>"

definition linkState :: editor_state where
  "linkState =
     \<lparr>root = \<lparr>ntype = RootNode, parent = None, children = [NodeKey 1], textContent = ''ab'',
               indent = 0, format = JSUndefined\<rparr>,
      nodeMap = [1 \<mapsto> linkParagraph, 2 \<mapsto> linkText, 3 \<mapsto> linkNode],
      selection = Some (sampleCaret 1),
      keyCounter = 4\<rparr>"

definition linkSelection :: selection where
  "linkSelection =
     \<lparr>anchor = \<lparr>key = NodeKey 3, offset = 0, ptype = ElementPoint\<rparr>,
      focus = \<lparr>key = NodeKey 3, offset = 0, ptype = ElementPoint\<rparr>\<rparr>"

section \<open>Facts about the model\<close>

lemma getNodeByKey_setNode:
  "getNodeByKey (setNode k nd m) k' = (if k' = k then Some nd else getNodeByKey m k')"
  by (cases k; cases k') auto

lemma parentBlock_lookup:
  "parentBlock m a = Inr (k, pb) \<Longrightarrow> getNodeByKey m k = Some pb"
  by (auto simp: parentBlock_def getNode_def getParentOrThrow_def
      split: if_splits option.splits sum.splits)

lemma indentOf_setIndent:
  "getNodeByKey m k = Some nd \<Longrightarrow>
   indentOf (setIndent k n m) k' = (if k' = k then Some n else indentOf m k')"
  by (simp add: indentOf_def setIndent_def getNodeByKey_setNode)












subsection \<open>The lifecycle helpers\<close>

lemma detach_frame:
  "keyCounter (detach k m) = keyCounter m" "selection (detach k m) = selection m"
  by (cases k; simp add: detach_def split: option.splits)+

lemma keyCounter_fold_detach: "keyCounter (fold detach ks m) = keyCounter m"
  by (induction ks arbitrary: m) (simp_all add: detach_frame)

lemma initParagraph_root:
  "children (root (editorState e)) = cs \<Longrightarrow>
   children (root (editorState (initParagraph e))) = cs @ [NodeKey (keyCounter (editorState e))]"
  by (simp add: initParagraph_def createParagraphNode_def rootAppend_def select_def Let_def)

lemma initParagraph_node:
  "getNodeByKey (editorState (initParagraph e)) (NodeKey (keyCounter (editorState e)))
     = Some (emptyParagraph\<lparr>parent := Some RootKey\<rparr>)"
  by (simp add: initParagraph_def createParagraphNode_def rootAppend_def select_def Let_def)

lemma initParagraph_selection:
  "selection (editorState (initParagraph e))
     = (if shouldSelectParagraph e
        then Some \<lparr>anchor = \<lparr>key = NodeKey (keyCounter (editorState e)), offset = 0,
                              ptype = ElementPoint\<rparr>,
                   focus = \<lparr>key = NodeKey (keyCounter (editorState e)), offset = 0,
                             ptype = ElementPoint\<rparr>\<rparr>
        else None)"
  by (auto simp: initParagraph_def createParagraphNode_def rootAppend_def select_def Let_def
      shouldSelectParagraph_def emptyParagraph_def)

lemma initParagraph_frame:
  "updates (initParagraph e) = updates e" "logs (initParagraph e) = logs e"
  "activeElement (initParagraph e) = activeElement e" "rootElement (initParagraph e) = rootElement e"
  by (simp_all add: initParagraph_def createParagraphNode_def Let_def)

subsection \<open>The sample documents\<close>

lemma editorOf_simps [simp]:
  "editorState (editorOf m) = m"
  "defaultPrevented (editorOf m) = {}"
  "activeElement (editorOf m) = None"
  "rootElement (editorOf m) = Some 0"
  "logs (editorOf m) = []"
  "updates (editorOf m) = []"
  "(editorOf m)\<lparr>editorState := m'\<rparr> = editorOf m'"
  by (simp_all add: editorOf_def)

lemma sample_selection: "selection (sampleState t n s off) = Some (sampleCaret off)"
  by (simp add: sampleState_def sampleCaret_def)

lemma sampleCaret_anchor [simp]:
  "anchor (sampleCaret off) = \<lparr>key = NodeKey 2, offset = off, ptype = TextPoint\<rparr>"
  by (simp add: sampleCaret_def)

lemma sample_nodes:
  "nodeMap (sampleState t n s off) 2 = Some (sampleText s)"
  "nodeMap (sampleState t n s off) (Suc 0) = Some (sampleBlock t n s)"
  by (simp_all add: sampleState_def sampleText_def sampleBlock_def)

lemma sample_getNode:
  "getNode (sampleState t n s off) \<lparr>key = NodeKey 2, offset = off, ptype = TextPoint\<rparr>
     = Inr (sampleText s)"
  by (simp add: getNode_def sample_nodes)

lemma sample_parentBlock:
  "parentBlock (sampleState t n s off) \<lparr>key = NodeKey 2, offset = off, ptype = TextPoint\<rparr>
     = Inr (NodeKey 1, sampleBlock t n s)"
  by (simp add: parentBlock_def getNode_def getParentOrThrow_def sample_nodes sampleText_def)

lemma sampleBlock_simps [simp]:
  "indent (sampleBlock t n s) = n"
  "canInsertTab (sampleBlock CodeNode n s) = Inr True"
  "canInsertTab (sampleBlock QuoteNode n s) = Inr False"
  by (simp_all add: sampleBlock_def canInsertTab_def isElementNode_def)

lemma sampleText_simps [simp]: "textContent (sampleText s) = s"
  by (simp add: sampleText_def)

text \<open>The sample selection object at work: a tab typed between \<open>a\<close> and \<open>b\<close>, the tab
  before the caret deleted, a line break inserted with the caret after it.\<close>

lemma plain_insert_tab:
  "execCommand plainSelection ''insertText'' (JSString [tab]) (editorOf (sampleState CodeNode 3 ''ab'' 1))
     = Inr (True, editorOf ((setNode (NodeKey 2) (sampleText [CHR ''a'', tab, CHR ''b''])
                              (sampleState CodeNode 3 ''ab'' 1))\<lparr>selection := Some (sampleCaret 2)\<rparr>))"
  by (simp add: execCommand.simps [of _ "''insertText''"] commandListener.simps [of _ "''insertText''"]
      plainSelection_def sample_selection sample_nodes handled_def editAnchorText_def moveAnchor_def
      sampleText_def sampleCaret_def editorOf_def Let_def)

lemma plain_delete_tab:
  "execCommand plainSelection ''deleteCharacter'' (JSBool True)
       (editorOf (sampleState CodeNode 3 [tab, CHR ''b''] 1))
     = Inr (True, editorOf ((setNode (NodeKey 2) (sampleText ''b'')
                              (sampleState CodeNode 3 [tab, CHR ''b''] 1))\<lparr>selection := Some (sampleCaret 0)\<rparr>))"
  by (simp add: execCommand.simps [of _ "''deleteCharacter''"]
      commandListener.simps [of _ "''deleteCharacter''"]
      plainSelection_def sample_selection sample_nodes handled_def editAnchorText_def moveAnchor_def
      sampleText_def sampleCaret_def editorOf_def Let_def)

lemma plain_line_break:
  "execCommand plainSelection ''insertLineBreak'' (JSBool False) (editorOf (sampleState QuoteNode 3 ''ab'' 1))
     = Inr (True, editorOf ((setNode (NodeKey 2) (sampleText [CHR ''a'', CHR 0x0A, CHR ''b''])
                              (sampleState QuoteNode 3 ''ab'' 1))\<lparr>selection := Some (sampleCaret 2)\<rparr>))"
  by (simp add: execCommand.simps [of _ "''insertLineBreak''"]
      commandListener.simps [of _ "''insertLineBreak''"]
      plainSelection_def sample_selection sample_nodes handled_def editAnchorText_def moveAnchor_def
      sampleText_def sampleCaret_def editorOf_def Let_def)

lemma sample_indent_kept:
  "indentOf ((setNode (NodeKey 2) nd (sampleState t n s off))\<lparr>selection := sel\<rparr>) (NodeKey 1) = Some n"
  by (simp add: indentOf_def sample_nodes)

section \<open>No selection, no effect\<close>

text \<open>
  C3. Whatever the command name and the payload, the listener returns \<open>False\<close>
  (unhandled) and leaves the editor exactly as it was when the current selection is null.
\<close>

theorem no_selection_unhandled:
  "selection (editorState e) = None \<Longrightarrow> commandListener ext type payload e = Inr (False, e)"
  by (simp add: commandListener.simps)

theorem no_selection_unhandled_witness:
  "selection (editorState (editorOf emptyState)) = None
   \<and> commandListener plainSelection ''insertText'' (JSString ''a'') (editorOf emptyState)
       = Inr (False, editorOf emptyState)"
  using no_selection_unhandled [of "editorOf emptyState" plainSelection "''insertText''" "JSString ''a''"]
  by (simp add: emptyState_def)

section \<open>Indent and outdent\<close>

text \<open>
  C1. \<^verbatim>\<open>indentContent\<close> with an active selection whose enclosing block resolves to the
  node \<open>pb\<close> under key \<open>k\<close>. If the block cannot take a literal tab and its indent level
  is in [0,10), the level of that block becomes one more and nothing else changes; at
  10 the editor is left as it was. If the block can take a literal tab, the listener
  writes no indent level at all: it re-dispatches \<^verbatim>\<open>insertText\<close> with the single tab
  character, and the editor it leaves is exactly the one that dispatch leaves. In all
  three cases the command is handled.
\<close>

theorem indentContent_effect:
  assumes sel: "selection (editorState e) = Some sel"
    and blk: "parentBlock (editorState e) (anchor sel) = Inr (k, pb)"
  shows "(canInsertTab pb = Inr False \<and> 0 \<le> indent pb \<and> indent pb < 10 \<longrightarrow>
            commandListener ext ''indentContent'' payload e
              = Inr (True, e\<lparr>editorState := setIndent k (indent pb + 1) (editorState e)\<rparr>)
            \<and> indentOf (setIndent k (indent pb + 1) (editorState e)) k = Some (indent pb + 1))
       \<and> (canInsertTab pb = Inr False \<and> indent pb = 10 \<longrightarrow>
            commandListener ext ''indentContent'' payload e = Inr (True, e))
       \<and> (canInsertTab pb = Inr True \<longrightarrow>
            commandListener ext ''indentContent'' payload e
              = (case execCommand ext ''insertText'' (JSString [tab]) e of
                   Inl x \<Rightarrow> Inl x
                 | Inr (r, e') \<Rightarrow> Inr (True, e')))"
  using sel blk parentBlock_lookup [OF blk]
  by (simp add: commandListener.simps indentOf_setIndent)

theorem indentContent_effect_witness:
  "commandListener plainSelection ''indentContent'' JSUndefined (editorOf (sampleState QuoteNode 3 ''ab'' 1))
     = Inr (True, editorOf (setIndent (NodeKey 1) 4 (sampleState QuoteNode 3 ''ab'' 1)))
   \<and> indentOf (setIndent (NodeKey 1) 4 (sampleState QuoteNode 3 ''ab'' 1)) (NodeKey 1) = Some 4
   \<and> commandListener plainSelection ''indentContent'' JSUndefined (editorOf (sampleState QuoteNode 10 ''ab'' 1))
     = Inr (True, editorOf (sampleState QuoteNode 10 ''ab'' 1))
   \<and> commandListener plainSelection ''indentContent'' JSUndefined (editorOf (sampleState CodeNode 3 ''ab'' 1))
     = Inr (True, editorOf ((setNode (NodeKey 2) (sampleText [CHR ''a'', tab, CHR ''b''])
                              (sampleState CodeNode 3 ''ab'' 1))\<lparr>selection := Some (sampleCaret 2)\<rparr>))
   \<and> indentOf ((setNode (NodeKey 2) (sampleText [CHR ''a'', tab, CHR ''b''])
                 (sampleState CodeNode 3 ''ab'' 1))\<lparr>selection := Some (sampleCaret 2)\<rparr>) (NodeKey 1) = Some 3"
proof -
  have sel: "selection (editorState (editorOf (sampleState t n ''ab'' 1))) = Some (sampleCaret 1)" for t n
    by (simp add: sample_selection)
  have blk: "parentBlock (editorState (editorOf (sampleState t n ''ab'' 1))) (anchor (sampleCaret 1))
      = Inr (NodeKey 1, sampleBlock t n ''ab'')" for t n
    by (simp add: sample_parentBlock)
  have quote3:
    "commandListener plainSelection ''indentContent'' JSUndefined (editorOf (sampleState QuoteNode 3 ''ab'' 1))
       = Inr (True, editorOf (setIndent (NodeKey 1) 4 (sampleState QuoteNode 3 ''ab'' 1)))
     \<and> indentOf (setIndent (NodeKey 1) 4 (sampleState QuoteNode 3 ''ab'' 1)) (NodeKey 1) = Some 4"
    using indentContent_effect [OF sel [of QuoteNode 3] blk [of QuoteNode 3],
        where ext = plainSelection and payload = JSUndefined]
    by simp
  have quote10:
    "commandListener plainSelection ''indentContent'' JSUndefined (editorOf (sampleState QuoteNode 10 ''ab'' 1))
       = Inr (True, editorOf (sampleState QuoteNode 10 ''ab'' 1))"
    using indentContent_effect [OF sel [of QuoteNode 10] blk [of QuoteNode 10],
        where ext = plainSelection and payload = JSUndefined]
    by simp
  have code3:
    "commandListener plainSelection ''indentContent'' JSUndefined (editorOf (sampleState CodeNode 3 ''ab'' 1))
       = Inr (True, editorOf ((setNode (NodeKey 2) (sampleText [CHR ''a'', tab, CHR ''b''])
                              (sampleState CodeNode 3 ''ab'' 1))\<lparr>selection := Some (sampleCaret 2)\<rparr>))"
    using indentContent_effect [OF sel [of CodeNode 3] blk [of CodeNode 3],
        where ext = plainSelection and payload = JSUndefined]
    by (simp add: plain_insert_tab)
  from quote3 quote10 code3 show ?thesis
    by (simp only: sample_indent_kept simp_thms)
qed

text \<open>
  C2. \<^verbatim>\<open>outdentContent\<close> with an active selection whose anchor node is \<open>anchorNode\<close>
  and whose enclosing block resolves to \<open>pb\<close> under key \<open>k\<close>. If the block cannot take
  a literal tab and its indent level is in (0,10], the level of that block becomes one
  less and nothing else changes; at 0 the editor is left as it was. If the block can take
  a literal tab, the listener re-dispatches \<^verbatim>\<open>deleteCharacter\<close> backward, once, exactly
  when the code unit just before the anchor offset in the anchor node's text content is
  a tab, and leaves the editor as it was otherwise. The command is handled in every case.
\<close>

theorem outdentContent_effect:
  assumes sel: "selection (editorState e) = Some sel"
    and nd: "getNode (editorState e) (anchor sel) = Inr anchorNode"
    and blk: "parentBlock (editorState e) (anchor sel) = Inr (k, pb)"
  shows "(canInsertTab pb = Inr False \<and> 0 < indent pb \<and> indent pb \<le> 10 \<longrightarrow>
            commandListener ext ''outdentContent'' payload e
              = Inr (True, e\<lparr>editorState := setIndent k (indent pb - 1) (editorState e)\<rparr>)
            \<and> indentOf (setIndent k (indent pb - 1) (editorState e)) k = Some (indent pb - 1))
       \<and> (canInsertTab pb = Inr False \<and> indent pb = 0 \<longrightarrow>
            commandListener ext ''outdentContent'' payload e = Inr (True, e))
       \<and> (canInsertTab pb = Inr True
            \<and> jsCharAt (textContent anchorNode) (offset (anchor sel) - 1) = Some tab \<longrightarrow>
            commandListener ext ''outdentContent'' payload e
              = (case execCommand ext ''deleteCharacter'' (JSBool True) e of
                   Inl x \<Rightarrow> Inl x
                 | Inr (r, e') \<Rightarrow> Inr (True, e')))
       \<and> (canInsertTab pb = Inr True
            \<and> jsCharAt (textContent anchorNode) (offset (anchor sel) - 1) \<noteq> Some tab \<longrightarrow>
            commandListener ext ''outdentContent'' payload e = Inr (True, e))"
  using sel nd blk parentBlock_lookup [OF blk]
  by (simp add: commandListener.simps indentOf_setIndent)

theorem outdentContent_effect_witness:
  "commandListener plainSelection ''outdentContent'' JSUndefined (editorOf (sampleState QuoteNode 3 ''ab'' 1))
     = Inr (True, editorOf (setIndent (NodeKey 1) 2 (sampleState QuoteNode 3 ''ab'' 1)))
   \<and> indentOf (setIndent (NodeKey 1) 2 (sampleState QuoteNode 3 ''ab'' 1)) (NodeKey 1) = Some 2
   \<and> commandListener plainSelection ''outdentContent'' JSUndefined (editorOf (sampleState QuoteNode 0 ''ab'' 1))
     = Inr (True, editorOf (sampleState QuoteNode 0 ''ab'' 1))
   \<and> commandListener plainSelection ''outdentContent'' JSUndefined
        (editorOf (sampleState CodeNode 3 [tab, CHR ''b''] 1))
     = Inr (True, editorOf ((setNode (NodeKey 2) (sampleText ''b'')
                              (sampleState CodeNode 3 [tab, CHR ''b''] 1))\<lparr>selection := Some (sampleCaret 0)\<rparr>))
   \<and> commandListener plainSelection ''outdentContent'' JSUndefined (editorOf (sampleState CodeNode 3 ''ab'' 1))
     = Inr (True, editorOf (sampleState CodeNode 3 ''ab'' 1))"
proof -
  have sel: "selection (editorState (editorOf (sampleState t n s 1))) = Some (sampleCaret 1)" for t n s
    by (simp add: sample_selection)
  have nd: "getNode (editorState (editorOf (sampleState t n s 1))) (anchor (sampleCaret 1))
      = Inr (sampleText s)" for t n s
    by (simp add: sample_getNode)
  have blk: "parentBlock (editorState (editorOf (sampleState t n s 1))) (anchor (sampleCaret 1))
      = Inr (NodeKey 1, sampleBlock t n s)" for t n s
    by (simp add: sample_parentBlock)
  have quote3:
    "commandListener plainSelection ''outdentContent'' JSUndefined (editorOf (sampleState QuoteNode 3 ''ab'' 1))
       = Inr (True, editorOf (setIndent (NodeKey 1) 2 (sampleState QuoteNode 3 ''ab'' 1)))
     \<and> indentOf (setIndent (NodeKey 1) 2 (sampleState QuoteNode 3 ''ab'' 1)) (NodeKey 1) = Some 2"
    using outdentContent_effect [OF sel [of QuoteNode 3 "''ab''"] nd [of QuoteNode 3 "''ab''"]
        blk [of QuoteNode 3 "''ab''"], where ext = plainSelection and payload = JSUndefined]
    by simp
  have quote0:
    "commandListener plainSelection ''outdentContent'' JSUndefined (editorOf (sampleState QuoteNode 0 ''ab'' 1))
       = Inr (True, editorOf (sampleState QuoteNode 0 ''ab'' 1))"
    using outdentContent_effect [OF sel [of QuoteNode 0 "''ab''"] nd [of QuoteNode 0 "''ab''"]
        blk [of QuoteNode 0 "''ab''"], where ext = plainSelection and payload = JSUndefined]
    by simp
  have code_tab:
    "commandListener plainSelection ''outdentContent'' JSUndefined
        (editorOf (sampleState CodeNode 3 [tab, CHR ''b''] 1))
     = Inr (True, editorOf ((setNode (NodeKey 2) (sampleText ''b'')
                              (sampleState CodeNode 3 [tab, CHR ''b''] 1))\<lparr>selection := Some (sampleCaret 0)\<rparr>))"
    using outdentContent_effect [OF sel [of CodeNode 3 "[tab, CHR ''b'']"] nd [of CodeNode 3 "[tab, CHR ''b'']"]
        blk [of CodeNode 3 "[tab, CHR ''b'']"], where ext = plainSelection and payload = JSUndefined]
    by (simp add: plain_delete_tab jsCharAt_def)
  have code_plain:
    "commandListener plainSelection ''outdentContent'' JSUndefined (editorOf (sampleState CodeNode 3 ''ab'' 1))
       = Inr (True, editorOf (sampleState CodeNode 3 ''ab'' 1))"
    using outdentContent_effect [OF sel [of CodeNode 3 "''ab''"] nd [of CodeNode 3 "''ab''"]
        blk [of CodeNode 3 "''ab''"], where ext = plainSelection and payload = JSUndefined]
    by (simp add: jsCharAt_def tab_def)
  from quote3 quote0 code_tab code_plain show ?thesis
    by (simp only: simp_thms)
qed

text \<open>
  C10. \<^verbatim>\<open>outdentContent\<close> on a block that takes literal tabs, with the anchor at offset
  0 or with a code unit other than a tab before it: the listener returns \<open>True\<close>
  (handled), raises nothing and leaves the editor exactly as it was, so nothing is
  deleted. At offset 0 the lookup \<^verbatim>\<open>textContent[-1]\<close> is out of range and yields no
  character.
\<close>

theorem outdentContent_without_tab:
  assumes sel: "selection (editorState e) = Some sel"
    and nd: "getNode (editorState e) (anchor sel) = Inr anchorNode"
    and blk: "parentBlock (editorState e) (anchor sel) = Inr (k, pb)"
    and code: "canInsertTab pb = Inr True"
    and notab: "offset (anchor sel) = 0
                \<or> jsCharAt (textContent anchorNode) (offset (anchor sel) - 1) \<noteq> Some tab"
  shows "commandListener ext ''outdentContent'' payload e = Inr (True, e)
         \<and> (if offset (anchor sel) = 0
            then jsCharAt (textContent anchorNode) (offset (anchor sel) - 1) = None
            else jsCharAt (textContent anchorNode) (offset (anchor sel) - 1) \<noteq> Some tab)"
proof -
  have none: "jsCharAt (textContent anchorNode) (offset (anchor sel) - 1) = None"
    if "offset (anchor sel) = 0"
    using that by (simp add: jsCharAt_def)
  from notab none have "jsCharAt (textContent anchorNode) (offset (anchor sel) - 1) \<noteq> Some tab"
    by auto
  with sel nd blk code none show ?thesis
    by (simp add: commandListener.simps)
qed

theorem outdentContent_without_tab_witness:
  "commandListener plainSelection ''outdentContent'' JSUndefined
       (editorOf (sampleState CodeNode 3 [tab, CHR ''b''] 0))
     = Inr (True, editorOf (sampleState CodeNode 3 [tab, CHR ''b''] 0))
   \<and> jsCharAt [tab, CHR ''b''] (0 - 1) = None
   \<and> commandListener plainSelection ''outdentContent'' JSUndefined
       (editorOf (sampleState CodeNode 3 [tab, CHR ''b''] 2))
     = Inr (True, editorOf (sampleState CodeNode 3 [tab, CHR ''b''] 2))
   \<and> jsCharAt [tab, CHR ''b''] (2 - 1) = Some (CHR ''b'')"
proof -
  have sel: "selection (editorState (editorOf (sampleState t n s off))) = Some (sampleCaret off)"
    for t n s off
    by (simp add: sample_selection)
  have nd: "getNode (editorState (editorOf (sampleState t n s off))) (anchor (sampleCaret off))
      = Inr (sampleText s)" for t n s off
    by (simp add: sample_getNode)
  have blk: "parentBlock (editorState (editorOf (sampleState t n s off))) (anchor (sampleCaret off))
      = Inr (NodeKey 1, sampleBlock t n s)" for t n s off
    by (simp add: sample_parentBlock)
  have code: "canInsertTab (sampleBlock CodeNode n s) = Inr True" for n s
    by simp
  have a: "offset (anchor (sampleCaret 0)) = 0
       \<or> jsCharAt (textContent (sampleText [tab, CHR ''b''])) (offset (anchor (sampleCaret 0)) - 1) \<noteq> Some tab"
    by simp
  have b: "offset (anchor (sampleCaret 2)) = 0
       \<or> jsCharAt (textContent (sampleText [tab, CHR ''b''])) (offset (anchor (sampleCaret 2)) - 1) \<noteq> Some tab"
    by (simp add: jsCharAt_def tab_def)
  show ?thesis
    using outdentContent_without_tab [OF sel [of CodeNode 3] nd [of CodeNode 3] blk [of CodeNode 3] code a,
        where ext = plainSelection and payload = JSUndefined]
      outdentContent_without_tab [OF sel [of CodeNode 3] nd [of CodeNode 3] blk [of CodeNode 3] code b,
        where ext = plainSelection and payload = JSUndefined]
    by (simp add: jsCharAt_def)
qed

section \<open>Delegation between commands\<close>

text \<open>
  C4, as the code has it. With an active selection and a key event as payload,
  \<^verbatim>\<open>keyBackspace\<close>, \<^verbatim>\<open>keyDelete\<close>, \<^verbatim>\<open>keyEnter\<close> and \<^verbatim>\<open>keyTab\<close> mark the event and
  return whatever the re-entrant dispatch of their delegate returns: its exception,
  or its boolean and its editor, unchanged. \<^verbatim>\<open>indentContent\<close> on a block that takes
  literal tabs is different: it keeps the editor the \<^verbatim>\<open>insertText\<close> dispatch leaves and
  passes its exception on, but puts \<open>True\<close> in place of the boolean the dispatch returned.
\<close>

theorem delegation_results:
  assumes sel: "selection (editorState e) = Some sel"
  shows "commandListener ext ''keyBackspace'' (JSEvent ev) e
           = execCommand ext ''deleteCharacter'' (JSBool True)
               (e\<lparr>defaultPrevented := insert (eventId ev) (defaultPrevented e)\<rparr>)
       \<and> commandListener ext ''keyDelete'' (JSEvent ev) e
           = execCommand ext ''deleteCharacter'' (JSBool False)
               (e\<lparr>defaultPrevented := insert (eventId ev) (defaultPrevented e)\<rparr>)
       \<and> commandListener ext ''keyEnter'' (JSEvent ev) e
           = execCommand ext (if shiftKey ev then ''insertLineBreak'' else ''insertParagraph'')
               JSUndefined (e\<lparr>defaultPrevented := insert (eventId ev) (defaultPrevented e)\<rparr>)
       \<and> commandListener ext ''keyTab'' (JSEvent ev) e
           = execCommand ext (if shiftKey ev then ''outdentContent'' else ''indentContent'')
               JSUndefined (e\<lparr>defaultPrevented := insert (eventId ev) (defaultPrevented e)\<rparr>)
       \<and> (parentBlock (editorState e) (anchor sel) = Inr (k, pb) \<and> canInsertTab pb = Inr True \<longrightarrow>
            commandListener ext ''indentContent'' payload e
              = (case execCommand ext ''insertText'' (JSString [tab]) e of
                   Inl x \<Rightarrow> Inl x
                 | Inr (r, e') \<Rightarrow> Inr (True, e')))"
  using sel by (simp add: commandListener.simps)

theorem delegation_results_witness:
  "commandListener plainSelection ''keyBackspace'' (JSEvent \<lparr>eventId = 7, shiftKey = True\<rparr>)
       (editorOf (sampleState CodeNode 3 ''ab'' 1))
     = execCommand plainSelection ''deleteCharacter'' (JSBool True)
         ((editorOf (sampleState CodeNode 3 ''ab'' 1))\<lparr>defaultPrevented := {7}\<rparr>)
   \<and> commandListener plainSelection ''keyDelete'' (JSEvent \<lparr>eventId = 7, shiftKey = True\<rparr>)
       (editorOf (sampleState CodeNode 3 ''ab'' 1))
     = execCommand plainSelection ''deleteCharacter'' (JSBool False)
         ((editorOf (sampleState CodeNode 3 ''ab'' 1))\<lparr>defaultPrevented := {7}\<rparr>)
   \<and> commandListener plainSelection ''keyEnter'' (JSEvent \<lparr>eventId = 7, shiftKey = True\<rparr>)
       (editorOf (sampleState CodeNode 3 ''ab'' 1))
     = execCommand plainSelection ''insertLineBreak'' JSUndefined
         ((editorOf (sampleState CodeNode 3 ''ab'' 1))\<lparr>defaultPrevented := {7}\<rparr>)
   \<and> commandListener plainSelection ''keyTab'' (JSEvent \<lparr>eventId = 7, shiftKey = True\<rparr>)
       (editorOf (sampleState CodeNode 3 ''ab'' 1))
     = execCommand plainSelection ''outdentContent'' JSUndefined
         ((editorOf (sampleState CodeNode 3 ''ab'' 1))\<lparr>defaultPrevented := {7}\<rparr>)
   \<and> commandListener plainSelection ''indentContent'' JSUndefined (editorOf (sampleState CodeNode 3 ''ab'' 1))
     = Inr (True, editorOf ((setNode (NodeKey 2) (sampleText [CHR ''a'', tab, CHR ''b''])
                              (sampleState CodeNode 3 ''ab'' 1))\<lparr>selection := Some (sampleCaret 2)\<rparr>))"
proof -
  have sel: "selection (editorState (editorOf (sampleState CodeNode 3 ''ab'' 1))) = Some (sampleCaret 1)"
    by (simp add: sample_selection)
  show ?thesis
    using delegation_results [OF sel,
      where ext = plainSelection and ev = "\<lparr>eventId = 7, shiftKey = True\<rparr>" and payload = JSUndefined
        and k = "NodeKey 1" and pb = "sampleBlock CodeNode 3 ''ab''"]
    by (simp add: sample_parentBlock plain_insert_tab)
qed

text \<open>
  The claim as stated fails for \<^verbatim>\<open>indentContent\<close>. A host handler of higher priority
  drops the selection when text is about to be inserted and declines the command; the
  re-dispatched \<^verbatim>\<open>insertText\<close> then finds no selection and returns \<open>False\<close>, while
  \<^verbatim>\<open>indentContent\<close>, which ignores that result, returns \<open>True\<close>.
\<close>

theorem indentContent_swallows_result:
  "execCommand blurringHost ''insertText'' (JSString [tab]) (editorOf (sampleState CodeNode 3 ''ab'' 1))
     = Inr (False, editorOf ((sampleState CodeNode 3 ''ab'' 1)\<lparr>selection := None\<rparr>))
   \<and> commandListener blurringHost ''indentContent'' JSUndefined (editorOf (sampleState CodeNode 3 ''ab'' 1))
     = Inr (True, editorOf ((sampleState CodeNode 3 ''ab'' 1)\<lparr>selection := None\<rparr>))"
proof -
  have h: "hostListeners blurringHost = [blurOnInsert]"
    by (simp add: blurringHost_def)
  have d: "execCommand blurringHost ''insertText'' (JSString [tab]) (editorOf (sampleState CodeNode 3 ''ab'' 1))
     = Inr (False, editorOf ((sampleState CodeNode 3 ''ab'' 1)\<lparr>selection := None\<rparr>))"
    by (simp add: execCommand.simps [of _ "''insertText''"] commandListener.simps [of _ "''insertText''"]
        h blurOnInsert_def)
  have "commandListener blurringHost ''indentContent'' JSUndefined (editorOf (sampleState CodeNode 3 ''ab'' 1))
     = Inr (True, editorOf ((sampleState CodeNode 3 ''ab'' 1)\<lparr>selection := None\<rparr>))"
    by (simp add: commandListener.simps [of _ "''indentContent''"] sample_selection sample_parentBlock d)
  with d show ?thesis by simp
qed







section \<open>Resolving the enclosing block\<close>

lemma link_nodes:
  "nodeMap linkState (Suc 0) = Some linkParagraph"
  "nodeMap linkState 2 = Some linkText"
  "nodeMap linkState 3 = Some linkNode"
  by (simp_all add: linkState_def)

text \<open>
  C7, as the code has it. For \<^verbatim>\<open>indentContent\<close> and \<^verbatim>\<open>outdentContent\<close> with an active
  selection whose anchor names the node \<open>nd\<close>: the block resolved is the anchor node
  itself when the anchor is of element kind, and the anchor node's immediate parent
  when it is of text kind, whether or not that node is a block; the parent is the
  nearest block ancestor of the specification when it is a block. The indent level the
  command writes is the one of the resolved node. When the node of a text anchor has no
  parent, the resolution and both commands end in the exception of
  \<^verbatim>\<open>getParentOrThrow\<close>, not in a boolean result.
\<close>

theorem parentBlock_resolution:
  assumes sel: "selection (editorState e) = Some sel"
    and nd: "getNodeByKey (editorState e) (key (anchor sel)) = Some nd"
  shows "(ptype (anchor sel) = ElementPoint \<longrightarrow>
            parentBlock (editorState e) (anchor sel) = Inr (key (anchor sel), nd))
       \<and> (ptype (anchor sel) = TextPoint \<and> parent nd = Some pk
            \<and> getNodeByKey (editorState e) pk = Some p \<longrightarrow>
            parentBlock (editorState e) (anchor sel) = Inr (pk, p)
            \<and> (isBlockNode p \<longrightarrow> nearestBlockAncestor (Suc fuel) (editorState e) nd = Some (pk, p)))
       \<and> (ptype (anchor sel) = TextPoint \<and> parent nd = None \<longrightarrow>
            parentBlock (editorState e) (anchor sel) = Inl NoParent
            \<and> commandListener ext ''indentContent'' payload e = Inl NoParent
            \<and> commandListener ext ''outdentContent'' payload e = Inl NoParent)
       \<and> (parentBlock (editorState e) (anchor sel) = Inr (k, pb) \<and> canInsertTab pb = Inr False \<longrightarrow>
            (indent pb \<noteq> 10 \<longrightarrow>
               commandListener ext ''indentContent'' payload e
                 = Inr (True, e\<lparr>editorState := setIndent k (indent pb + 1) (editorState e)\<rparr>))
            \<and> (indent pb \<noteq> 0 \<longrightarrow>
               commandListener ext ''outdentContent'' payload e
                 = Inr (True, e\<lparr>editorState := setIndent k (indent pb - 1) (editorState e)\<rparr>)))"
proof -
  have node: "getNode (editorState e) (anchor sel) = Inr nd"
    using nd by (simp add: getNode_def)
  have element: "parentBlock (editorState e) (anchor sel) = Inr (key (anchor sel), nd)"
    if "ptype (anchor sel) = ElementPoint"
    using that node by (simp add: parentBlock_def)
  have immediate: "parentBlock (editorState e) (anchor sel) = Inr (pk, p)
            \<and> (isBlockNode p \<longrightarrow> nearestBlockAncestor (Suc fuel) (editorState e) nd = Some (pk, p))"
    if "ptype (anchor sel) = TextPoint" "parent nd = Some pk" "getNodeByKey (editorState e) pk = Some p"
    using that node by (simp add: parentBlock_def getParentOrThrow_def)
  have fatal: "parentBlock (editorState e) (anchor sel) = Inl NoParent
            \<and> commandListener ext ''indentContent'' payload e = Inl NoParent
            \<and> commandListener ext ''outdentContent'' payload e = Inl NoParent"
    if "ptype (anchor sel) = TextPoint" "parent nd = None"
  proof -
    from that node have "parentBlock (editorState e) (anchor sel) = Inl NoParent"
      by (simp add: parentBlock_def getParentOrThrow_def)
    with sel node show ?thesis
      by (simp add: commandListener.simps [of _ "''indentContent''"]
          commandListener.simps [of _ "''outdentContent''"])
  qed
  have written: "(indent pb \<noteq> 10 \<longrightarrow>
               commandListener ext ''indentContent'' payload e
                 = Inr (True, e\<lparr>editorState := setIndent k (indent pb + 1) (editorState e)\<rparr>))
            \<and> (indent pb \<noteq> 0 \<longrightarrow>
               commandListener ext ''outdentContent'' payload e
                 = Inr (True, e\<lparr>editorState := setIndent k (indent pb - 1) (editorState e)\<rparr>))"
    if "parentBlock (editorState e) (anchor sel) = Inr (k, pb)" "canInsertTab pb = Inr False"
    using that sel node
    by (simp add: commandListener.simps [of _ "''indentContent''"]
        commandListener.simps [of _ "''outdentContent''"])
  from element immediate fatal written show ?thesis
    by blast
qed

theorem parentBlock_resolution_witness:
  "parentBlock (sampleState QuoteNode 3 ''ab'' 1) (anchor (sampleCaret 1))
     = Inr (NodeKey 1, sampleBlock QuoteNode 3 ''ab'')
   \<and> nearestBlockAncestor 1 (sampleState QuoteNode 3 ''ab'' 1) (sampleText ''ab'')
     = Some (NodeKey 1, sampleBlock QuoteNode 3 ''ab'')
   \<and> commandListener plainSelection ''indentContent'' JSUndefined (editorOf (sampleState QuoteNode 3 ''ab'' 1))
     = Inr (True, editorOf (setIndent (NodeKey 1) 4 (sampleState QuoteNode 3 ''ab'' 1)))
   \<and> commandListener plainSelection ''outdentContent'' JSUndefined (editorOf (sampleState QuoteNode 3 ''ab'' 1))
     = Inr (True, editorOf (setIndent (NodeKey 1) 2 (sampleState QuoteNode 3 ''ab'' 1)))
   \<and> parentBlock ((sampleState QuoteNode 3 ''ab'' 1)\<lparr>selection := Some blockSelection\<rparr>)
        (anchor blockSelection)
     = Inr (NodeKey 1, sampleBlock QuoteNode 3 ''ab'')
   \<and> parentBlock orphanState (anchor (sampleCaret 1)) = Inl NoParent
   \<and> commandListener plainSelection ''indentContent'' JSUndefined (editorOf orphanState) = Inl NoParent
   \<and> commandListener plainSelection ''outdentContent'' JSUndefined (editorOf orphanState) = Inl NoParent"
proof -
  let ?orphan = "\<lparr>ntype = TextNode, parent = None, children = [],
                  textContent = ''ab'', indent = 0, format = JSUndefined\<rparr>"
  let ?e1 = "editorOf (sampleState QuoteNode 3 ''ab'' 1)"
  let ?e2 = "editorOf ((sampleState QuoteNode 3 ''ab'' 1)\<lparr>selection := Some blockSelection\<rparr>)"
  let ?e3 = "editorOf orphanState"
  have a: "selection (editorState ?e1) = Some (sampleCaret 1)"
    "getNodeByKey (editorState ?e1) (key (anchor (sampleCaret 1))) = Some (sampleText ''ab'')"
    by (simp_all add: sample_selection sample_nodes)
  have b: "selection (editorState ?e2) = Some blockSelection"
    "getNodeByKey (editorState ?e2) (key (anchor blockSelection)) = Some (sampleBlock QuoteNode 3 ''ab'')"
    by (simp_all add: blockSelection_def sampleBlock_def) (simp add: sampleState_def)
  have c: "selection (editorState ?e3) = Some (sampleCaret 1)"
    "getNodeByKey (editorState ?e3) (key (anchor (sampleCaret 1))) = Some ?orphan"
    by (simp_all add: orphanState_def sampleCaret_def)
  have text_anchor: "parentBlock (sampleState QuoteNode 3 ''ab'' 1) (anchor (sampleCaret 1))
       = Inr (NodeKey 1, sampleBlock QuoteNode 3 ''ab'')
     \<and> nearestBlockAncestor 1 (sampleState QuoteNode 3 ''ab'' 1) (sampleText ''ab'')
       = Some (NodeKey 1, sampleBlock QuoteNode 3 ''ab'')
     \<and> commandListener plainSelection ''indentContent'' JSUndefined (editorOf (sampleState QuoteNode 3 ''ab'' 1))
       = Inr (True, editorOf (setIndent (NodeKey 1) 4 (sampleState QuoteNode 3 ''ab'' 1)))
     \<and> commandListener plainSelection ''outdentContent'' JSUndefined (editorOf (sampleState QuoteNode 3 ''ab'' 1))
       = Inr (True, editorOf (setIndent (NodeKey 1) 2 (sampleState QuoteNode 3 ''ab'' 1)))"
    using parentBlock_resolution [OF a, where fuel = 0 and ext = plainSelection and payload = JSUndefined
        and pk = "NodeKey 1" and p = "sampleBlock QuoteNode 3 ''ab''"
        and k = "NodeKey 1" and pb = "sampleBlock QuoteNode 3 ''ab''"]
    by (simp add: sample_nodes sampleText_def isBlockNode_def)
       (simp add: sampleBlock_def isBlockNode_def)
  have block_anchor: "parentBlock ((sampleState QuoteNode 3 ''ab'' 1)\<lparr>selection := Some blockSelection\<rparr>)
        (anchor blockSelection)
     = Inr (NodeKey 1, sampleBlock QuoteNode 3 ''ab'')"
    using parentBlock_resolution [OF b, where fuel = 0 and ext = plainSelection and payload = JSUndefined]
    by (simp add: blockSelection_def)
  have orphan: "parentBlock orphanState (anchor (sampleCaret 1)) = Inl NoParent
   \<and> commandListener plainSelection ''indentContent'' JSUndefined (editorOf orphanState) = Inl NoParent
   \<and> commandListener plainSelection ''outdentContent'' JSUndefined (editorOf orphanState) = Inl NoParent"
    using parentBlock_resolution [OF c, where fuel = 0 and ext = plainSelection and payload = JSUndefined]
    by simp
  from text_anchor block_anchor orphan show ?thesis
    by (simp only: simp_thms)
qed

text \<open>
  The claim as stated fails for text inside an inline link inside a paragraph. The
  nearest block ancestor of the text is the paragraph, but the block resolved is the
  link, the text's immediate parent, and \<^verbatim>\<open>indentContent\<close> raises the link's indent
  level and leaves the paragraph's at 0. With the anchor on the link itself, of element
  kind, the block resolved is again the link, which is not a block.
\<close>

theorem link_parent_is_not_nearest_block:
  "parentBlock linkState (anchor (sampleCaret 1)) = Inr (NodeKey 3, linkNode)
   \<and> \<not> isBlockNode linkNode
   \<and> nearestBlockAncestor (Suc (Suc 0)) linkState linkText = Some (NodeKey 1, linkParagraph)
   \<and> commandListener plainSelection ''indentContent'' JSUndefined (editorOf linkState)
       = Inr (True, editorOf (setIndent (NodeKey 3) 1 linkState))
   \<and> indentOf (setIndent (NodeKey 3) 1 linkState) (NodeKey 3) = Some 1
   \<and> indentOf (setIndent (NodeKey 3) 1 linkState) (NodeKey 1) = Some 0
   \<and> parentBlock (linkState\<lparr>selection := Some linkSelection\<rparr>) (anchor linkSelection)
       = Inr (NodeKey 3, linkNode)
   \<and> nearestBlockAncestor (Suc 0) linkState linkNode = Some (NodeKey 1, linkParagraph)"
proof -
  have sel: "selection linkState = Some (sampleCaret 1)"
    by (simp add: linkState_def)
  have resolved: "parentBlock linkState (anchor (sampleCaret 1)) = Inr (NodeKey 3, linkNode)"
    by (simp add: parentBlock_def getNode_def getParentOrThrow_def link_nodes linkText_def)
  have inline: "\<not> isBlockNode linkNode" "isBlockNode linkParagraph" "\<not> isBlockNode linkText"
    by (simp_all add: isBlockNode_def linkNode_def linkParagraph_def linkText_def)
  have links: "parent linkText = Some (NodeKey 3)" "parent linkNode = Some (NodeKey 1)"
    by (simp_all add: linkText_def linkNode_def)
  have climb: "nearestBlockAncestor (Suc (Suc 0)) linkState linkText = Some (NodeKey 1, linkParagraph)"
    "nearestBlockAncestor (Suc 0) linkState linkNode = Some (NodeKey 1, linkParagraph)"
    by (simp_all add: links link_nodes inline)
  have tab: "canInsertTab linkNode = Inr False" "indent linkNode = 0"
    by (simp_all add: canInsertTab_def isElementNode_def linkNode_def)
  have dispatch: "commandListener plainSelection ''indentContent'' JSUndefined (editorOf linkState)
       = Inr (True, editorOf (setIndent (NodeKey 3) 1 linkState))"
    by (simp add: commandListener.simps [of _ "''indentContent''"] sel
        resolved [unfolded sampleCaret_anchor] tab)
  have levels: "indentOf (setIndent (NodeKey 3) 1 linkState) (NodeKey 3) = Some 1"
    "indentOf (setIndent (NodeKey 3) 1 linkState) (NodeKey 1) = Some 0"
    by (simp_all add: indentOf_def setIndent_def link_nodes) (simp add: linkParagraph_def)
  have on_link: "parentBlock (linkState\<lparr>selection := Some linkSelection\<rparr>) (anchor linkSelection)
       = Inr (NodeKey 3, linkNode)"
    by (simp add: parentBlock_def getNode_def linkSelection_def link_nodes)
  from resolved inline(1) climb dispatch levels on_link show ?thesis
    by (simp only: simp_thms)
qed

section \<open>Lifecycle\<close>

text \<open>
  C5. \<^verbatim>\<open>initEditor\<close> on a root without children leaves the root with exactly one child,
  an empty paragraph; on a root that has a first child it leaves the editor state as it
  was. \<^verbatim>\<open>clearEditor\<close>, whatever the document held, leaves the root with exactly one
  child, an empty paragraph; it commits that state and then, when a callback was given,
  calls it once, and does nothing more.
\<close>

theorem lifecycle_single_paragraph:
  "(children (root (editorState e)) = [] \<longrightarrow>
      children (root (editorState (initEditor e))) = [NodeKey (keyCounter (editorState e))]
      \<and> getNodeByKey (editorState (initEditor e)) (NodeKey (keyCounter (editorState e)))
          = Some (emptyParagraph\<lparr>parent := Some RootKey\<rparr>))
   \<and> (children (root (editorState e)) \<noteq> [] \<longrightarrow> editorState (initEditor e) = editorState e)
   \<and> children (root (editorState (clearEditor e callbackFn))) = [NodeKey (keyCounter (editorState e))]
   \<and> getNodeByKey (editorState (clearEditor e callbackFn)) (NodeKey (keyCounter (editorState e)))
          = Some (emptyParagraph\<lparr>parent := Some RootKey\<rparr>)
   \<and> updates (clearEditor e callbackFn)
        = updates e @ Committed (editorState (clearEditor e callbackFn))
            # (case callbackFn of None \<Rightarrow> [] | Some f \<Rightarrow> [OnUpdate f])"
proof -
  have init_empty: "children (root (editorState (initEditor e))) = [NodeKey (keyCounter (editorState e))]
      \<and> getNodeByKey (editorState (initEditor e)) (NodeKey (keyCounter (editorState e)))
          = Some (emptyParagraph\<lparr>parent := Some RootKey\<rparr>)"
    if "children (root (editorState e)) = []"
    using that initParagraph_root [of "logUpdate ''initEditor'' e" "[]"]
      initParagraph_node [of "logUpdate ''initEditor'' e"]
    by (simp add: initEditor_def update_def Let_def getFirstChild_def logUpdate_def)
  have init_nonempty: "editorState (initEditor e) = editorState e"
    if "children (root (editorState e)) \<noteq> []"
    using that
    by (simp add: initEditor_def update_def Let_def getFirstChild_def logUpdate_def split: list.splits)
  let ?e2 = "(logUpdate ''clearEditor'' e)\<lparr>editorState :=
               rootClear (editorState (logUpdate ''clearEditor'' e))\<rparr>"
  have cleared: "children (root (editorState ?e2)) = []"
    "keyCounter (editorState ?e2) = keyCounter (editorState e)"
    by (simp_all add: rootClear_def Let_def logUpdate_def keyCounter_fold_detach)
  have clear_state: "editorState (clearEditor e callbackFn) = editorState (initParagraph ?e2)"
    by (cases callbackFn) (simp_all add: clearEditor_def update_def Let_def)
  have clear_root: "children (root (editorState (clearEditor e callbackFn)))
                      = [NodeKey (keyCounter (editorState e))]"
    using initParagraph_root [OF cleared(1)] cleared(2) by (simp add: clear_state)
  have clear_node: "getNodeByKey (editorState (clearEditor e callbackFn)) (NodeKey (keyCounter (editorState e)))
          = Some (emptyParagraph\<lparr>parent := Some RootKey\<rparr>)"
    using initParagraph_node [of ?e2] cleared(2) by (simp add: clear_state)
  have clear_updates: "updates (clearEditor e callbackFn)
        = updates e @ Committed (editorState (clearEditor e callbackFn))
            # (case callbackFn of None \<Rightarrow> [] | Some f \<Rightarrow> [OnUpdate f])"
    by (cases callbackFn)
       (simp_all add: clearEditor_def update_def Let_def initParagraph_frame logUpdate_def)
  from init_empty init_nonempty clear_root clear_node clear_updates show ?thesis
    by blast
qed

theorem lifecycle_single_paragraph_witness:
  "children (root (editorState (initEditor (editorOf emptyState)))) = [NodeKey 1]
   \<and> getNodeByKey (editorState (initEditor (editorOf emptyState))) (NodeKey 1)
       = Some (emptyParagraph\<lparr>parent := Some RootKey\<rparr>)
   \<and> editorState (initEditor (editorOf (sampleState QuoteNode 3 ''ab'' 1))) = sampleState QuoteNode 3 ''ab'' 1
   \<and> children (root (editorState (clearEditor (editorOf (sampleState QuoteNode 3 ''ab'' 1)) (Some 7))))
       = [NodeKey 3]
   \<and> getNodeByKey (editorState (clearEditor (editorOf (sampleState QuoteNode 3 ''ab'' 1)) (Some 7))) (NodeKey 3)
       = Some (emptyParagraph\<lparr>parent := Some RootKey\<rparr>)
   \<and> updates (clearEditor (editorOf (sampleState QuoteNode 3 ''ab'' 1)) (Some 7))
       = [Committed (editorState (clearEditor (editorOf (sampleState QuoteNode 3 ''ab'' 1)) (Some 7))),
          OnUpdate 7]"
  using lifecycle_single_paragraph [of "editorOf emptyState" None]
    lifecycle_single_paragraph [of "editorOf (sampleState QuoteNode 3 ''ab'' 1)" "Some 7"]
  by (simp add: emptyState_def sampleState_def)

text \<open>
  C8, as the code has it. Mounting with the initialize flag on an empty root leaves the
  root with exactly one child, an empty paragraph; the selection is anchored inside that
  paragraph at offset 0 when a selection already exists or the editor's root element
  has the focus, and stays null otherwise.
\<close>

theorem mount_selects_when_visible:
  assumes "children (root (editorState e)) = []"
  shows "children (root (editorState (useRichTextSetup e True))) = [NodeKey (keyCounter (editorState e))]
       \<and> getNodeByKey (editorState (useRichTextSetup e True)) (NodeKey (keyCounter (editorState e)))
           = Some (emptyParagraph\<lparr>parent := Some RootKey\<rparr>)
       \<and> selection (editorState (useRichTextSetup e True))
           = (if selection (editorState e) \<noteq> None
                 \<or> (activeElement e \<noteq> None \<and> activeElement e = rootElement e)
              then Some \<lparr>anchor = \<lparr>key = NodeKey (keyCounter (editorState e)), offset = 0,
                                    ptype = ElementPoint\<rparr>,
                         focus = \<lparr>key = NodeKey (keyCounter (editorState e)), offset = 0,
                                   ptype = ElementPoint\<rparr>\<rparr>
              else None)"
proof -
  let ?e1 = "logUpdate ''initEditor'' (e\<lparr>registeredNodes :=
                   [HeadingNode, ListNode, QuoteNode, CodeNode, ParagraphNode, ListItemNode]\<rparr>)"
  have st: "editorState (useRichTextSetup e True) = editorState (initParagraph ?e1)"
    using assms
    by (simp add: useRichTextSetup_def initEditor_def update_def Let_def getFirstChild_def logUpdate_def)
  have e1: "editorState ?e1 = editorState e" "shouldSelectParagraph ?e1 = shouldSelectParagraph e"
    by (simp_all add: logUpdate_def shouldSelectParagraph_def)
  show ?thesis
    using initParagraph_root [of ?e1 "[]"] initParagraph_node [of ?e1] initParagraph_selection [of ?e1] assms
    by (simp add: st e1) (simp add: shouldSelectParagraph_def)
qed

theorem mount_selects_when_visible_witness:
  "children (root (editorState ((editorOf emptyState)\<lparr>activeElement := Some 0\<rparr>))) = []
   \<and> children (root (editorState (useRichTextSetup ((editorOf emptyState)\<lparr>activeElement := Some 0\<rparr>) True)))
       = [NodeKey 1]
   \<and> getNodeByKey (editorState (useRichTextSetup ((editorOf emptyState)\<lparr>activeElement := Some 0\<rparr>) True))
        (NodeKey 1)
       = Some (emptyParagraph\<lparr>parent := Some RootKey\<rparr>)
   \<and> selection (editorState (useRichTextSetup ((editorOf emptyState)\<lparr>activeElement := Some 0\<rparr>) True))
       = Some \<lparr>anchor = \<lparr>key = NodeKey 1, offset = 0, ptype = ElementPoint\<rparr>,
               focus = \<lparr>key = NodeKey 1, offset = 0, ptype = ElementPoint\<rparr>\<rparr>"
proof -
  have empty: "children (root (editorState ((editorOf emptyState)\<lparr>activeElement := Some 0\<rparr>))) = []"
    by (simp add: emptyState_def)
  show ?thesis
    using mount_selects_when_visible [OF empty] empty
    by (simp add: emptyState_def)
qed

text \<open>
  The claim as stated fails when nothing is selected and the editor does not have the
  focus: the paragraph is appended, and the selection stays null.
\<close>

theorem mount_without_focus_leaves_no_selection:
  "children (root (editorState (editorOf emptyState))) = []
   \<and> children (root (editorState (useRichTextSetup (editorOf emptyState) True))) = [NodeKey 1]
   \<and> selection (editorState (useRichTextSetup (editorOf emptyState) True)) = None"
  by (simp add: useRichTextSetup_def initEditor_def update_def Let_def getFirstChild_def logUpdate_def
      initParagraph_def createParagraphNode_def rootAppend_def select_def shouldSelectParagraph_def
      emptyState_def editorOf_def)

section \<open>Event bindings by platform capability\<close>

text \<open>
  C9. The capability flag picks the bindings once, when the list is built. With native
  support for \<^verbatim>\<open>beforeinput\<close>, the only binding among the \<^verbatim>\<open>beforeinput\<close> and
  \<^verbatim>\<open>drop\<close> events and their two handlers is \<^verbatim>\<open>beforeinput\<close> with \<^verbatim>\<open>onBeforeInput\<close>;
  without it, the only one is \<^verbatim>\<open>drop\<close> with \<^verbatim>\<open>onDropPolyfill\<close>. The ten other
  bindings are the same in both lists.
\<close>

theorem event_bindings:
  "filter (\<lambda>b. fst b = ''beforeinput'' \<or> fst b = ''drop'' \<or> snd b = OnBeforeInput \<or> snd b = OnDropPolyfill)
      (events True) = [(''beforeinput'', OnBeforeInput)]
   \<and> filter (\<lambda>b. fst b = ''beforeinput'' \<or> fst b = ''drop'' \<or> snd b = OnBeforeInput \<or> snd b = OnDropPolyfill)
      (events False) = [(''drop'', OnDropPolyfill)]
   \<and> butlast (events True) = butlast (events False)
   \<and> length (events True) = 11 \<and> length (events False) = 11"
  by (simp add: events_def)

end
